theory Spec2Isabelle
  imports Main "HOL-Library.Word"
begin

section \<open>The job part plan models of \<open>ste/ste-mmf-models.go\<close>\<close>

text \<open>
  The file declares the fixed-size structures of a job part's memory-mapped plan file
  (header, blob attributes, transfer record), the job status codes with their string
  rendering, the accessors of the two status words, and a few constants.

  Go's unsigned integers are words of their width. The accessors go through
  \<open>sync/atomic\<close>; the model is sequential, so \<open>atomic.LoadUint32\<close> reads the
  32-bit word and \<open>atomic.StoreUint32\<close> replaces it.
\<close>

type_synonym uint8 = "8 word"
type_synonym uint16 = "16 word"
type_synonym uint32 = "32 word"
type_synonym uint64 = "64 word"
type_synonym byte = "8 word"

subsection \<open>Fixed-size arrays\<close>

text \<open>
  A Go array type \<open>[N]T\<close> carries its length in the type. \<open>('a, 'n) array\<close> is the
  type of the lists of exactly \<open>CARD('n)\<close> elements, so \<open>[256]byte\<close> is
  \<open>(byte, 256) array\<close>.
\<close>

typedef ('a, 'n) array = "{xs :: 'a list. length xs = CARD('n)}"
proof
  show "replicate CARD('n) undefined \<in> {xs :: 'a list. length xs = CARD('n)}"
    by simp
qed

setup_lifting type_definition_array

text \<open>\<open>len(a)\<close>, \<open>a[:]\<close> and the zero value of an array type.\<close>

lift_definition elems :: "('a, 'n) array \<Rightarrow> 'a list" is "\<lambda>xs. xs" .

definition len :: "('a, 'n) array \<Rightarrow> nat" where
  "len a = length (elems a)"

lift_definition zeroArray :: "('a::zero, 'n) array" is "replicate CARD('n) 0"
  by simp

subsection \<open>Schema version and job status codes\<close>

text \<open>\<open>const dataSchemaVersion = 0\<close>: an untyped integer constant.\<close>

definition dataSchemaVersion :: int where
  "dataSchemaVersion = 0"

text \<open>\<open>type JobStatusCode uint32\<close>\<close>

type_synonym JobStatusCode = uint32

text \<open>The method \<open>JobStatusCode.String\<close>: a switch on \<open>uint32(status)\<close>.\<close>

definition JobStatusCode_String :: "JobStatusCode \<Rightarrow> string" where
  "JobStatusCode_String status =
     (if status = 0 then ''JobInProgress''
      else if status = 1 then ''JobPaused''
      else if status = 2 then ''JobCancelled''
      else if status = 3 then ''JobCompleted''
      else ''InvalidStatusCode'')"

definition JobInProgress :: JobStatusCode where
  "JobInProgress = 0"

definition JobPaused :: JobStatusCode where
  "JobPaused = 1"

definition JobCancelled :: JobStatusCode where
  "JobCancelled = 2"

definition JobCompleted :: JobStatusCode where
  "JobCompleted = 3"

subsection \<open>The structures\<close>

text \<open>\<open>JobPartPlanBlobData\<close>: the optional attributes embedded in the header.\<close>

record JobPartPlanBlobData =
  ContentTypeLength :: uint8
  ContentType :: "(byte, 256) array"
  ContentEncodingLength :: uint8
  ContentEncoding :: "(byte, 256) array"
  MetaDataLength :: uint16
  MetaData :: "(byte, 1000) array"
  BlockSize :: uint64

text \<open>
  \<open>JobPartPlanHeader\<close>. The types \<open>common.JobID\<close>, \<open>common.LocationType\<close> and
  \<open>pipeline.LogLevel\<close> are declared in other packages; they are the type parameters
  \<open>'jobid\<close>, \<open>'loc\<close> and \<open>'lvl\<close>. The field \<open>Id\<close> is written \<open>Id'\<close>.
\<close>

record ('jobid, 'loc, 'lvl) JobPartPlanHeader =
  Version :: uint32
  Id' :: 'jobid
  PartNum :: uint32
  IsFinalPart :: bool
  Priority :: uint8
  TTLAfterCompletion :: uint32
  SrcLocationType :: 'loc
  DstLocationType :: 'loc
  NumTransfers :: uint32
  LogSeverity :: 'lvl
  BlobData :: JobPartPlanBlobData
  jobStatus :: JobStatusCode

text \<open>
  \<open>common.TransferStatus\<close> is declared in package \<open>common\<close>. The accessors convert
  a pointer to it into \<open>*uint32\<close>, which Go allows only when its underlying type is
  \<open>uint32\<close>.
\<close>

type_synonym TransferStatus = uint32

record JobPartPlanTransfer =
  Offset :: uint64
  SrcLength :: uint16
  DstLength :: uint16
  ChunkNum :: uint16
  ModifiedTime :: uint32
  SourceSize :: uint64
  CompletionTime :: uint64
  transferStatus :: TransferStatus

subsection \<open>The status accessors\<close>

text \<open>
  The four accessors have pointer receivers. A receiver is \<open>None\<close> for the nil pointer
  and \<open>Some h\<close> for a pointer to the structure \<open>h\<close>; taking the address of a field
  through the nil pointer is Go's run-time panic. A setter returns the structure the
  pointer refers to after the store.
\<close>

datatype panic = NilPointerDereference

definition getJobStatus ::
  "('jobid, 'loc, 'lvl) JobPartPlanHeader option \<Rightarrow> panic + JobStatusCode" where
  "getJobStatus jPartPlanHeader =
     (case jPartPlanHeader of
        None \<Rightarrow> Inl NilPointerDereference
      | Some h \<Rightarrow> Inr (jobStatus h))"

definition setJobStatus ::
  "('jobid, 'loc, 'lvl) JobPartPlanHeader option \<Rightarrow> JobStatusCode \<Rightarrow>
     panic + ('jobid, 'loc, 'lvl) JobPartPlanHeader" where
  "setJobStatus jPartPlanHeader status =
     (case jPartPlanHeader of
        None \<Rightarrow> Inl NilPointerDereference
      | Some h \<Rightarrow> Inr (h\<lparr>jobStatus := status\<rparr>))"

definition getTransferStatus :: "JobPartPlanTransfer option \<Rightarrow> panic + TransferStatus" where
  "getTransferStatus jPartPlanTransfer =
     (case jPartPlanTransfer of
        None \<Rightarrow> Inl NilPointerDereference
      | Some t \<Rightarrow> Inr (transferStatus t))"

definition setTransferStatus ::
  "JobPartPlanTransfer option \<Rightarrow> TransferStatus \<Rightarrow> panic + JobPartPlanTransfer" where
  "setTransferStatus jPartPlanTransfer status =
     (case jPartPlanTransfer of
        None \<Rightarrow> Inl NilPointerDereference
      | Some t \<Rightarrow> Inr (t\<lparr>transferStatus := status\<rparr>))"

text \<open>
  A call through the pointer that a setter left behind: \<open>after r f\<close> runs \<open>f\<close> on the
  structure \<open>r\<close> holds, and passes a panic on.
\<close>

definition after :: "panic + 'a \<Rightarrow> ('a option \<Rightarrow> panic + 'b) \<Rightarrow> panic + 'b" where
  "after r f = (case r of Inl e \<Rightarrow> Inl e | Inr x \<Rightarrow> f (Some x))"

subsection \<open>Priorities and buffer capacities\<close>

text \<open>Untyped integer constants, as in the source.\<close>

definition HighJobPriority :: int where
  "HighJobPriority = 0"

definition MediumJobPriority :: int where
  "MediumJobPriority = 1"

definition LowJobPriority :: int where
  "LowJobPriority = 2"

definition DefaultJobPriority :: int where
  "DefaultJobPriority = HighJobPriority"

definition MAX_SIZE_CONTENT_TYPE :: int where
  "MAX_SIZE_CONTENT_TYPE = 256"

definition MAX_SIZE_CONTENT_ENCODING :: int where
  "MAX_SIZE_CONTENT_ENCODING = 256"

definition MAX_SIZE_META_DATA :: int where
  "MAX_SIZE_META_DATA = 1000"

subsection \<open>Zero values\<close>

text \<open>Go's zero values \<open>JobPartPlanBlobData{}\<close>, \<open>JobPartPlanHeader{}\<close> and
  \<open>JobPartPlanTransfer{}\<close>, used as concrete inputs.\<close>

definition zeroBlobData :: JobPartPlanBlobData where
  "zeroBlobData =
     \<lparr>ContentTypeLength = 0, ContentType = zeroArray,
      ContentEncodingLength = 0, ContentEncoding = zeroArray,
      MetaDataLength = 0, MetaData = zeroArray, BlockSize = 0\<rparr>"

definition zeroHeader :: "('jobid::zero, 'loc::zero, 'lvl::zero) JobPartPlanHeader" where
  "zeroHeader =
     \<lparr>Version = 0, Id' = 0, PartNum = 0, IsFinalPart = False, Priority = 0,
      TTLAfterCompletion = 0, SrcLocationType = 0, DstLocationType = 0,
      NumTransfers = 0, LogSeverity = 0, BlobData = zeroBlobData, jobStatus = 0\<rparr>"

definition zeroTransfer :: JobPartPlanTransfer where
  "zeroTransfer =
     \<lparr>Offset = 0, SrcLength = 0, DstLength = 0, ChunkNum = 0, ModifiedTime = 0,
      SourceSize = 0, CompletionTime = 0, transferStatus = 0\<rparr>"

subsection \<open>Sequences of setter calls\<close>

text \<open>
  A run of this layer on one structure: the setter called with each status of a list in
  turn, through the same pointer.
\<close>

fun setJobStatusSeq ::
  "('jobid, 'loc, 'lvl) JobPartPlanHeader \<Rightarrow> JobStatusCode list \<Rightarrow>
     panic + ('jobid, 'loc, 'lvl) JobPartPlanHeader" where
  "setJobStatusSeq h [] = Inr h"
| "setJobStatusSeq h (s # ss) =
     (case setJobStatus (Some h) s of
        Inl e \<Rightarrow> Inl e
      | Inr h' \<Rightarrow> setJobStatusSeq h' ss)"

fun setTransferStatusSeq ::
  "JobPartPlanTransfer \<Rightarrow> TransferStatus list \<Rightarrow> panic + JobPartPlanTransfer" where
  "setTransferStatusSeq t [] = Inr t"
| "setTransferStatusSeq t (s # ss) =
     (case setTransferStatus (Some t) s of
        Inl e \<Rightarrow> Inl e
      | Inr t' \<Rightarrow> setTransferStatusSeq t' ss)"

section \<open>The parts of the design that the source file does not contain\<close>

text \<open>
  The source file declares the data and the status accessors only. The operations below
  (the priority channels, the validation of a blob data block, the layout builder and
  the reader of a plan file) are described by the specification and live outside the
  file; each is modelled from the specification's words.
\<close>

text \<open>
  Modelled from the spec: the error conditions of section 7 that the modelled operations
  report. The source file declares no error.
\<close>

datatype error = SchemaVersionMismatch | CorruptPlan

subsection \<open>Priority channels\<close>

text \<open>
  Modelled from the spec: the three scheduling queues and the priority-to-channel mapping
  of section 4.3, which are not in the source file. The mapping sends the header's
  stored \<open>Priority\<close> to one of the three queues, and any other stored value is a
  \<open>CorruptPlan\<close> condition.
\<close>

datatype channel = HighChannel | MediumChannel | LowChannel

definition priorityChannel :: "uint8 \<Rightarrow> error + channel" where
  "priorityChannel p =
     (if uint p = HighJobPriority then Inr HighChannel
      else if uint p = MediumJobPriority then Inr MediumChannel
      else if uint p = LowJobPriority then Inr LowChannel
      else Inl CorruptPlan)"

subsection \<open>Construction of a blob data block\<close>

text \<open>
  Modelled from the spec: a buffer that holds an attribute. The bytes are copied to the
  front of a zeroed array, as \<open>copy(buf[:], bytes)\<close> does; what lies beyond the used
  length is never read.
\<close>

lift_definition fillArray :: "'a::zero list \<Rightarrow> ('a, 'n) array"
  is "\<lambda>xs. take CARD('n) (xs @ replicate CARD('n) 0)"
  by simp

text \<open>
  Modelled from the spec: the write-time validation of invariant 4, which is not in the
  source file. The block is made from the three attributes as byte strings and the block
  size. An attribute longer than the capacity of its buffer (256, 256 and 1000 bytes) is
  rejected, before its length is narrowed to the width of the length field; otherwise
  each length field takes the length of its attribute and each buffer its bytes. The
  length fields of the content type and of the content encoding are 8 bits wide in the
  source, so an attribute of exactly 256 bytes fills its buffer and leaves 0 in its
  length field.
\<close>

definition newBlobData ::
  "byte list \<Rightarrow> byte list \<Rightarrow> byte list \<Rightarrow> uint64 \<Rightarrow> error + JobPartPlanBlobData" where
  "newBlobData contentType contentEncoding metaData blockSize =
     (if int (length contentType) > MAX_SIZE_CONTENT_TYPE then Inl CorruptPlan
      else if int (length contentEncoding) > MAX_SIZE_CONTENT_ENCODING then Inl CorruptPlan
      else if int (length metaData) > MAX_SIZE_META_DATA then Inl CorruptPlan
      else Inr
        \<lparr>ContentTypeLength = of_nat (length contentType),
         ContentType = fillArray contentType,
         ContentEncodingLength = of_nat (length contentEncoding),
         ContentEncoding = fillArray contentEncoding,
         MetaDataLength = of_nat (length metaData),
         MetaData = fillArray metaData,
         BlockSize = blockSize\<rparr>)"

subsection \<open>Plan file layout\<close>

text \<open>
  Modelled from the spec: the binary encoding of the two fixed-size structures, which is
  not in the source file. \<open>sizeof(Header)\<close> and \<open>sizeof(TransferRecord)\<close> depend on
  the types of other packages, so the sizes and the encoding are parameters.
\<close>

record ('jobid, 'loc, 'lvl) codec =
  sizeofHeader :: nat
  sizeofTransfer :: nat
  putHeader :: "('jobid, 'loc, 'lvl) JobPartPlanHeader \<Rightarrow> byte list"
  getHeader :: "byte list \<Rightarrow> ('jobid, 'loc, 'lvl) JobPartPlanHeader"
  putTransfer :: "JobPartPlanTransfer \<Rightarrow> byte list"
  getTransfer :: "byte list \<Rightarrow> JobPartPlanTransfer"

text \<open>
  Modelled from the spec: the records are of fixed size, so every encoded structure has
  the size of its type.
\<close>

definition fixedSize :: "('jobid, 'loc, 'lvl) codec \<Rightarrow> bool" where
  "fixedSize c =
     ((\<forall>h. length (putHeader c h) = sizeofHeader c)
      \<and> (\<forall>t. length (putTransfer c t) = sizeofTransfer c))"

text \<open>
  Modelled from the spec: the regions of section 4.2, as half-open byte ranges
  \<open>(first, end)\<close>, and the bytes of a region.
\<close>

definition headerRegion :: "('jobid, 'loc, 'lvl) codec \<Rightarrow> nat \<times> nat" where
  "headerRegion c = (0, sizeofHeader c)"

definition transferRegion :: "('jobid, 'loc, 'lvl) codec \<Rightarrow> nat \<Rightarrow> nat \<times> nat" where
  "transferRegion c i =
     (sizeofHeader c + i * sizeofTransfer c, sizeofHeader c + (i + 1) * sizeofTransfer c)"

definition poolStart :: "('jobid, 'loc, 'lvl) codec \<Rightarrow> nat \<Rightarrow> nat" where
  "poolStart c n = sizeofHeader c + n * sizeofTransfer c"

definition slice :: "nat \<times> nat \<Rightarrow> 'a list \<Rightarrow> 'a list" where
  "slice r bs = take (snd r - fst r) (drop (fst r) bs)"

text \<open>
  Modelled from the spec: the forward pass of the layout builder of section 4.2. It gives
  each transfer its \<open>Offset\<close> by accumulating the lengths of the strings before it; the
  per-transfer metadata comes as a record whose other fields are kept.
\<close>

type_synonym transferInput = "JobPartPlanTransfer \<times> byte list \<times> byte list"

fun layoutTransfers :: "nat \<Rightarrow> transferInput list \<Rightarrow> JobPartPlanTransfer list" where
  "layoutTransfers off [] = []"
| "layoutTransfers off ((m, src, dst) # ps) =
     m\<lparr>Offset := of_nat off, SrcLength := of_nat (length src),
       DstLength := of_nat (length dst)\<rparr>
     # layoutTransfers (off + length src + length dst) ps"

definition stringPool :: "transferInput list \<Rightarrow> byte list" where
  "stringPool ps = concat (map (\<lambda>(m, src, dst). src @ dst) ps)"

text \<open>
  Modelled from the spec: the layout builder writes the header, the whole transfer array
  and the concatenated strings, in that order, and returns the bytes with the total file
  size. It lays out the header it is given; \<open>constructPlanFile\<close> below runs it on a
  header whose blob data block has passed the validation.
\<close>

definition buildPlanFile ::
  "('jobid, 'loc, 'lvl) codec \<Rightarrow> ('jobid, 'loc, 'lvl) JobPartPlanHeader \<Rightarrow>
     transferInput list \<Rightarrow> byte list \<times> nat" where
  "buildPlanFile c hdr ps =
     (let ts = layoutTransfers (poolStart c (length ps)) ps;
          bytes = putHeader c hdr @ concat (map (putTransfer c) ts) @ stringPool ps
      in (bytes, length bytes))"

text \<open>
  Modelled from the spec: the construction of a part's plan file, the one place where a
  plan file is written. It makes the blob data block of the header from the attributes,
  which validates them, and only then runs the layout builder; a rejected attribute
  leaves no file.
\<close>

definition constructPlanFile ::
  "('jobid, 'loc, 'lvl) codec \<Rightarrow> ('jobid, 'loc, 'lvl) JobPartPlanHeader \<Rightarrow>
     byte list \<Rightarrow> byte list \<Rightarrow> byte list \<Rightarrow> uint64 \<Rightarrow> transferInput list \<Rightarrow>
     error + byte list \<times> nat" where
  "constructPlanFile c hdr contentType contentEncoding metaData blockSize ps =
     (case newBlobData contentType contentEncoding metaData blockSize of
        Inl e \<Rightarrow> Inl e
      | Inr b \<Rightarrow> Inr (buildPlanFile c (hdr\<lparr>BlobData := b\<rparr>) ps))"

text \<open>
  Modelled from the spec: the inputs of the builder that the fixed-width fields can hold.
  \<open>NumTransfers\<close> is the number of transfers (invariant 6), every path length fits
  the 16 bits of \<open>SrcLength\<close> and \<open>DstLength\<close>, and the total size fits the 64
  bits of \<open>Offset\<close>.
\<close>

definition fits ::
  "('jobid, 'loc, 'lvl) codec \<Rightarrow> ('jobid, 'loc, 'lvl) JobPartPlanHeader \<Rightarrow>
     transferInput list \<Rightarrow> bool" where
  "fits c hdr ps =
     (unat (NumTransfers hdr) = length ps
      \<and> list_all (\<lambda>(m, src, dst). length src < 2 ^ 16 \<and> length dst < 2 ^ 16) ps
      \<and> poolStart c (length ps) + length (stringPool ps) < 2 ^ 64)"

text \<open>
  Modelled from the spec: the read API of section 4.2. Given the mapped bytes it checks
  the version first, then invariant 6 (the records that \<open>NumTransfers\<close> announces are
  there) and invariant 5 for every record, and exposes the typed view only then.
\<close>

record ('jobid, 'loc, 'lvl) planView =
  viewHeader :: "('jobid, 'loc, 'lvl) JobPartPlanHeader"
  viewTransfers :: "JobPartPlanTransfer list"
  viewBytes :: "byte list"

definition readTransfers ::
  "('jobid, 'loc, 'lvl) codec \<Rightarrow> nat \<Rightarrow> byte list \<Rightarrow> JobPartPlanTransfer list" where
  "readTransfers c n bytes = map (\<lambda>i. getTransfer c (slice (transferRegion c i) bytes)) [0..<n]"

definition inBounds :: "nat \<Rightarrow> JobPartPlanTransfer \<Rightarrow> bool" where
  "inBounds fileSize t =
     (unat (Offset t) + unat (SrcLength t) + unat (DstLength t) \<le> fileSize)"

definition openPlanFile ::
  "('jobid, 'loc, 'lvl) codec \<Rightarrow> byte list \<Rightarrow> error + ('jobid, 'loc, 'lvl) planView" where
  "openPlanFile c bytes =
     (if length bytes < sizeofHeader c then Inl CorruptPlan
      else
        let hdr = getHeader c (slice (headerRegion c) bytes) in
        if uint (Version hdr) \<noteq> dataSchemaVersion then Inl SchemaVersionMismatch
        else if length bytes < poolStart c (unat (NumTransfers hdr)) then Inl CorruptPlan
        else
          let ts = readTransfers c (unat (NumTransfers hdr)) bytes in
          if list_all (inBounds (length bytes)) ts
          then Inr \<lparr>viewHeader = hdr, viewTransfers = ts, viewBytes = bytes\<rparr>
          else Inl CorruptPlan)"

text \<open>
  Modelled from the spec: the two path strings of a transfer, read from the bytes at its
  \<open>Offset\<close>, the source string first and the destination string right after it.
\<close>

definition srcString :: "byte list \<Rightarrow> JobPartPlanTransfer \<Rightarrow> byte list" where
  "srcString bytes t = take (unat (SrcLength t)) (drop (unat (Offset t)) bytes)"

definition dstString :: "byte list \<Rightarrow> JobPartPlanTransfer \<Rightarrow> byte list" where
  "dstString bytes t =
     take (unat (DstLength t)) (drop (unat (Offset t) + unat (SrcLength t)) bytes)"

text \<open>
  Modelled from the spec: an encoding that loses nothing, so that decoding an encoded
  structure gives it back.
\<close>

definition lossless :: "('jobid, 'loc, 'lvl) codec \<Rightarrow> bool" where
  "lossless c =
     ((\<forall>h. getHeader c (putHeader c h) = h) \<and> (\<forall>t. getTransfer c (putTransfer c t) = t))"

subsection \<open>A small encoding for concrete plan files\<close>

text \<open>
  Concrete inputs need concrete types for the header's parameters and a concrete
  encoding. \<open>tinyCodec\<close> stores the low byte of \<open>Version\<close> and \<open>NumTransfers\<close> in a
  two-byte header, and the low bytes of \<open>Offset\<close>, \<open>SrcLength\<close> and \<open>DstLength\<close> in
  a three-byte transfer record. It is not the layout of the Go structures; it is enough
  to run the builder and the reader on small files.
\<close>

type_synonym header0 = "(128 word, uint8, uint32) JobPartPlanHeader"

definition tinyCodec :: "(128 word, uint8, uint32) codec" where
  "tinyCodec =
     \<lparr>sizeofHeader = 2, sizeofTransfer = 3,
      putHeader = (\<lambda>h. [ucast (Version h), ucast (NumTransfers h)]),
      getHeader = (\<lambda>bs. zeroHeader\<lparr>Version := ucast (bs ! 0), NumTransfers := ucast (bs ! 1)\<rparr>),
      putTransfer = (\<lambda>t. [ucast (Offset t), ucast (SrcLength t), ucast (DstLength t)]),
      getTransfer = (\<lambda>bs. zeroTransfer\<lparr>Offset := ucast (bs ! 0), SrcLength := ucast (bs ! 1),
        DstLength := ucast (bs ! 2)\<rparr>)\<rparr>"

text \<open>
  The two transfers of the specification's scenario: \<open>a.txt\<close> to \<open>b.txt\<close> and
  \<open>c.txt\<close> to \<open>d.txt\<close>, as bytes.
\<close>

definition twoTransfers :: "transferInput list" where
  "twoTransfers =
     [(zeroTransfer, [97, 46, 116, 120, 116], [98, 46, 116, 120, 116]),
      (zeroTransfer, [99, 46, 116, 120, 116], [100, 46, 116, 120, 116])]"

section \<open>Properties of the source file\<close>

subsection \<open>Status accessors\<close>

text \<open>
  C1: storing a status with \<open>setJobStatus\<close> and reading it with \<open>getJobStatus\<close>
  returns that status, and likewise for \<open>setTransferStatus\<close> and \<open>getTransferStatus\<close>.
  The store is plain: the structure after it does not depend on the status word that was
  there before.
\<close>

theorem status_roundtrip:
  "after (setJobStatus (Some h) s) getJobStatus = Inr s
   \<and> after (setTransferStatus (Some t) s') getTransferStatus = Inr s'
   \<and> setJobStatus (Some (h\<lparr>jobStatus := old\<rparr>)) s = setJobStatus (Some h) s
   \<and> setTransferStatus (Some (t\<lparr>transferStatus := old'\<rparr>)) s' = setTransferStatus (Some t) s'"
  by (simp add: after_def setJobStatus_def getJobStatus_def
      setTransferStatus_def getTransferStatus_def)

text \<open>
  C7: a setter writes the status word and nothing else. After \<open>setJobStatus\<close> every
  other field of the header is what it was, after \<open>setTransferStatus\<close> every other field
  of the transfer record is what it was, and both accept every status from every state:
  no transition is checked.
\<close>

theorem setters_frame:
  "(\<exists>h'. setJobStatus (Some h) s = Inr h'
      \<and> jobStatus h' = s
      \<and> Version h' = Version h \<and> Id' h' = Id' h \<and> PartNum h' = PartNum h
      \<and> IsFinalPart h' = IsFinalPart h \<and> Priority h' = Priority h
      \<and> TTLAfterCompletion h' = TTLAfterCompletion h
      \<and> SrcLocationType h' = SrcLocationType h \<and> DstLocationType h' = DstLocationType h
      \<and> NumTransfers h' = NumTransfers h \<and> LogSeverity h' = LogSeverity h
      \<and> BlobData h' = BlobData h)
   \<and> (\<exists>t'. setTransferStatus (Some t) s' = Inr t'
      \<and> transferStatus t' = s'
      \<and> Offset t' = Offset t \<and> SrcLength t' = SrcLength t \<and> DstLength t' = DstLength t
      \<and> ChunkNum t' = ChunkNum t \<and> ModifiedTime t' = ModifiedTime t
      \<and> SourceSize t' = SourceSize t \<and> CompletionTime t' = CompletionTime t)"
  by (simp add: setJobStatus_def setTransferStatus_def)

text \<open>
  C9: \<open>setTransferStatus\<close> does not write \<open>CompletionTime\<close>, whatever the status
  argument is: the field after the call is the field before it.
\<close>

theorem setTransferStatus_keeps_CompletionTime:
  "\<exists>t'. setTransferStatus (Some t) s = Inr t' \<and> CompletionTime t' = CompletionTime t"
  by (simp add: setTransferStatus_def)

text \<open>
  C10: the setters are total over the 32-bit values. For every \<open>v\<close> the call returns
  without a panic, stores \<open>v\<close> as it is, and the getter returns \<open>v\<close>. A value outside
  the four job status codes is told apart only when it is displayed: \<open>String\<close> renders
  exactly the values above 3 as \<open>InvalidStatusCode\<close>.
\<close>

theorem setters_total:
  "(\<exists>h'. setJobStatus (Some h) v = Inr h' \<and> jobStatus h' = v
      \<and> getJobStatus (Some h') = Inr v)
   \<and> (\<exists>t'. setTransferStatus (Some t) v = Inr t' \<and> transferStatus t' = v
      \<and> getTransferStatus (Some t') = Inr v)
   \<and> (JobStatusCode_String v = ''InvalidStatusCode'') = (3 < v)"
proof -
  have "(JobStatusCode_String v = ''InvalidStatusCode'')
      = (\<not> (v = 0 \<or> v = 1 \<or> v = 2 \<or> v = 3))"
    by (simp add: JobStatusCode_String_def)
  also have "\<dots> = (3 < v)"
    by (simp add: word_less_nat_alt word_unat_eq_iff) arith
  finally show ?thesis
    by (simp add: setJobStatus_def setTransferStatus_def getJobStatus_def
        getTransferStatus_def)
qed

subsection \<open>Status transitions\<close>

lemma setJobStatusSeq_last:
  "ss \<noteq> [] \<Longrightarrow> setJobStatusSeq h ss = Inr (h\<lparr>jobStatus := last ss\<rparr>)"
proof (induction ss arbitrary: h)
  case Nil
  then show ?case by simp
next
  case (Cons s ss)
  show ?case
  proof (cases "ss = []")
    case True
    then show ?thesis by (simp add: setJobStatus_def)
  next
    case False
    with Cons.IH [of "h\<lparr>jobStatus := s\<rparr>"] show ?thesis
      by (simp add: setJobStatus_def)
  qed
qed

lemma setTransferStatusSeq_last:
  "ss \<noteq> [] \<Longrightarrow> setTransferStatusSeq t ss = Inr (t\<lparr>transferStatus := last ss\<rparr>)"
proof (induction ss arbitrary: t)
  case Nil
  then show ?case by simp
next
  case (Cons s ss)
  show ?case
  proof (cases "ss = []")
    case True
    then show ?thesis by (simp add: setTransferStatus_def)
  next
    case False
    with Cons.IH [of "t\<lparr>transferStatus := s\<rparr>"] show ?thesis
      by (simp add: setTransferStatus_def)
  qed
qed

text \<open>
  C3 (as amended): the setters do not restrict transitions. Whatever status a header or
  a transfer record holds, terminal or not, after a non-empty sequence of setter calls
  it holds the status of the last call. That transitions are monotone is a contract of
  the callers.
\<close>

theorem setters_unrestricted:
  assumes "ss \<noteq> []" and "ts \<noteq> []"
  shows "after (setJobStatusSeq h ss) getJobStatus = Inr (last ss)
    \<and> after (setTransferStatusSeq t ts) getTransferStatus = Inr (last ts)"
  using assms
  by (simp add: setJobStatusSeq_last setTransferStatusSeq_last after_def getJobStatus_def
      getTransferStatus_def)

theorem setters_unrestricted_witness:
  "after (setJobStatusSeq ((zeroHeader :: header0)\<lparr>jobStatus := JobCancelled\<rparr>)
       [JobPaused, JobInProgress]) getJobStatus = Inr JobInProgress
   \<and> after (setTransferStatusSeq (zeroTransfer\<lparr>transferStatus := 2\<rparr>) [1, 0])
       getTransferStatus = Inr 0"
  using setters_unrestricted [of "[JobPaused, JobInProgress]" "[1, 0]"
      "(zeroHeader :: header0)\<lparr>jobStatus := JobCancelled\<rparr>"
      "zeroTransfer\<lparr>transferStatus := 2\<rparr>"]
  by simp

text \<open>
  The claim as stated fails: a header whose job status is \<open>JobCompleted\<close>, a terminal
  status, is moved back to \<open>JobInProgress\<close> by one call of \<open>setJobStatus\<close>.
\<close>

theorem terminal_status_counterexample:
  "after (setJobStatusSeq ((zeroHeader :: header0)\<lparr>jobStatus := JobCompleted\<rparr>)
       [JobInProgress]) getJobStatus = Inr JobInProgress
   \<and> JobInProgress \<noteq> JobCompleted"
  by (simp add: after_def setJobStatus_def getJobStatus_def JobInProgress_def JobCompleted_def)

subsection \<open>String rendering\<close>

text \<open>
  C2 (as amended): \<open>String\<close> renders the four job status codes 0, 1, 2 and 3 as
  \<open>JobInProgress\<close>, \<open>JobPaused\<close>, \<open>JobCancelled\<close> and \<open>JobCompleted\<close>, the names of
  the constants, and exactly the other 32-bit values as \<open>InvalidStatusCode\<close>.
\<close>

theorem JobStatusCode_String_names:
  "JobInProgress = 0 \<and> JobPaused = 1 \<and> JobCancelled = 2 \<and> JobCompleted = 3
   \<and> JobStatusCode_String JobInProgress = ''JobInProgress''
   \<and> JobStatusCode_String JobPaused = ''JobPaused''
   \<and> JobStatusCode_String JobCancelled = ''JobCancelled''
   \<and> JobStatusCode_String JobCompleted = ''JobCompleted''
   \<and> (JobStatusCode_String s = ''InvalidStatusCode'')
       = (s \<notin> {JobInProgress, JobPaused, JobCancelled, JobCompleted})"
  by (simp add: JobStatusCode_String_def JobInProgress_def JobPaused_def JobCancelled_def
      JobCompleted_def)

text \<open>
  The claim as stated fails: none of the four rendered names is the name the
  specification lists.
\<close>

theorem JobStatusCode_String_counterexample:
  "JobStatusCode_String JobInProgress \<noteq> ''InProgress''
   \<and> JobStatusCode_String JobPaused \<noteq> ''Paused''
   \<and> JobStatusCode_String JobCancelled \<noteq> ''Cancelled''
   \<and> JobStatusCode_String JobCompleted \<noteq> ''Completed''"
  by (simp add: JobStatusCode_String_def JobInProgress_def JobPaused_def JobCancelled_def
      JobCompleted_def)

section \<open>Properties of the modelled operations\<close>

subsection \<open>Priorities\<close>

text \<open>
  C5: the priority constants are High = 0, Medium = 1 and Low = 2, and the default is
  High. The priority-to-channel mapping sends each of the three to a queue of its own,
  and a stored priority is a \<open>CorruptPlan\<close> condition exactly when it is none of them.
\<close>

theorem priority_constants_and_channels:
  "HighJobPriority = 0 \<and> MediumJobPriority = 1 \<and> LowJobPriority = 2
   \<and> DefaultJobPriority = HighJobPriority \<and> DefaultJobPriority = 0
   \<and> (priorityChannel p = Inr HighChannel) = (uint p = HighJobPriority)
   \<and> (priorityChannel p = Inr MediumChannel) = (uint p = MediumJobPriority)
   \<and> (priorityChannel p = Inr LowChannel) = (uint p = LowJobPriority)
   \<and> (priorityChannel p = Inl CorruptPlan)
       = (uint p \<notin> {HighJobPriority, MediumJobPriority, LowJobPriority})"
  by (simp add: HighJobPriority_def MediumJobPriority_def LowJobPriority_def
      DefaultJobPriority_def priorityChannel_def)

subsection \<open>Buffer capacities\<close>

lemma len_array: "len (a :: ('a, 'n) array) = CARD('n)"
  unfolding len_def by transfer simp

lemma uint8_less_256: "uint (w :: uint8) < 256"
  using uint_bounded [of w] by simp

text \<open>
  The reader does not look at the blob data block: with any block \<open>b\<close> put in the place
  of the one the header decodes to, a file opens or fails as before.
\<close>

lemma openPlanFile_ignores_BlobData:
  "openPlanFile (c\<lparr>getHeader := \<lambda>bs. (getHeader c bs)\<lparr>BlobData := b\<rparr>\<rparr>) bytes =
     map_sum id (\<lambda>v. v\<lparr>viewHeader := (viewHeader v)\<lparr>BlobData := b\<rparr>\<rparr>) (openPlanFile c bytes)"
  by (simp add: openPlanFile_def Let_def readTransfers_def headerRegion_def poolStart_def
      transferRegion_def)

lemma elems_fillArray:
  "elems (fillArray xs :: ('a::zero, 'n) array) = take CARD('n) (xs @ replicate CARD('n) 0)"
  by transfer simp

lemma take_fillArray:
  "length xs \<le> CARD('n) \<Longrightarrow> take (length xs) (elems (fillArray xs :: ('a::zero, 'n) array)) = xs"
  by (simp add: elems_fillArray min_absorb1)

text \<open>The block that \<open>newBlobData\<close> accepts holds the attributes it was given.\<close>

lemma newBlobData_accepted:
  assumes "newBlobData ct ce md bs = Inr b"
  shows "length ct \<le> 256" and "length ce \<le> 256" and "length md \<le> 1000"
    and "unat (ContentTypeLength b) = length ct mod 256"
    and "unat (ContentEncodingLength b) = length ce mod 256"
    and "unat (MetaDataLength b) = length md"
    and "take (length ct) (elems (ContentType b)) = ct"
    and "take (length ce) (elems (ContentEncoding b)) = ce"
    and "take (length md) (elems (MetaData b)) = md"
    and "BlockSize b = bs"
proof -
  from assms show bounds: "length ct \<le> 256" "length ce \<le> 256" "length md \<le> 1000"
    by (simp_all add: newBlobData_def MAX_SIZE_CONTENT_TYPE_def MAX_SIZE_CONTENT_ENCODING_def
        MAX_SIZE_META_DATA_def split: if_splits)
  from assms have b: "b =
      \<lparr>ContentTypeLength = of_nat (length ct), ContentType = fillArray ct,
       ContentEncodingLength = of_nat (length ce), ContentEncoding = fillArray ce,
       MetaDataLength = of_nat (length md), MetaData = fillArray md, BlockSize = bs\<rparr>"
    by (simp add: newBlobData_def split: if_splits)
  show "unat (ContentTypeLength b) = length ct mod 256"
    and "unat (ContentEncodingLength b) = length ce mod 256"
    by (simp_all add: b unat_of_nat)
  from bounds(3) show "unat (MetaDataLength b) = length md"
    by (simp add: b unat_of_nat)
  from bounds show "take (length ct) (elems (ContentType b)) = ct"
    and "take (length ce) (elems (ContentEncoding b)) = ce"
    and "take (length md) (elems (MetaData b)) = md"
    by (simp_all add: b take_fillArray)
  show "BlockSize b = bs"
    by (simp add: b)
qed

lemma newBlobData_rejected:
  "(newBlobData ct ce md bs = Inl CorruptPlan) =
     (MAX_SIZE_CONTENT_TYPE < int (length ct)
      \<or> MAX_SIZE_CONTENT_ENCODING < int (length ce)
      \<or> MAX_SIZE_META_DATA < int (length md))"
  by (simp add: newBlobData_def)

text \<open>
  C6: the buffers of a blob data block hold 256, 256 and 1000 bytes, and the capacity
  constants are these array sizes. The two 8-bit length fields are below 256 by their
  type. Construction rejects the attributes exactly when one
  of them is longer than the capacity of its buffer, and then writes no file. In the
  block of a file that is written, every length field is within the capacity of its
  buffer, and the used part of each buffer is the attribute. Reading validates no
  length: the reader opens a file whatever block its header holds.
\<close>

theorem blob_capacities:
  "int (len (ContentType b)) = MAX_SIZE_CONTENT_TYPE \<and> MAX_SIZE_CONTENT_TYPE = 256
   \<and> int (len (ContentEncoding b)) = MAX_SIZE_CONTENT_ENCODING
   \<and> MAX_SIZE_CONTENT_ENCODING = 256
   \<and> int (len (MetaData b)) = MAX_SIZE_META_DATA \<and> MAX_SIZE_META_DATA = 1000
   \<and> uint (ContentTypeLength b) < MAX_SIZE_CONTENT_TYPE
   \<and> uint (ContentEncodingLength b) < MAX_SIZE_CONTENT_ENCODING
   \<and> (constructPlanFile c hdr ct ce md blk ps = Inl CorruptPlan) =
        (MAX_SIZE_CONTENT_TYPE < int (length ct)
         \<or> MAX_SIZE_CONTENT_ENCODING < int (length ce)
         \<or> MAX_SIZE_META_DATA < int (length md))
   \<and> (constructPlanFile c hdr ct ce md blk ps = Inr out \<longrightarrow>
        (\<exists>b'. newBlobData ct ce md blk = Inr b'
           \<and> out = buildPlanFile c (hdr\<lparr>BlobData := b'\<rparr>) ps
           \<and> uint (ContentTypeLength b') \<le> MAX_SIZE_CONTENT_TYPE
           \<and> uint (ContentEncodingLength b') \<le> MAX_SIZE_CONTENT_ENCODING
           \<and> uint (MetaDataLength b') \<le> MAX_SIZE_META_DATA
           \<and> unat (ContentTypeLength b') = length ct mod 256
           \<and> unat (ContentEncodingLength b') = length ce mod 256
           \<and> unat (MetaDataLength b') = length md
           \<and> take (length ct) (elems (ContentType b')) = ct
           \<and> take (length ce) (elems (ContentEncoding b')) = ce
           \<and> take (length md) (elems (MetaData b')) = md))
   \<and> openPlanFile (c\<lparr>getHeader := \<lambda>bs. (getHeader c bs)\<lparr>BlobData := b\<rparr>\<rparr>) bytes =
        map_sum id (\<lambda>v. v\<lparr>viewHeader := (viewHeader v)\<lparr>BlobData := b\<rparr>\<rparr>)
          (openPlanFile c bytes)"
proof -
  have sizes: "int (len (ContentType b)) = MAX_SIZE_CONTENT_TYPE \<and> MAX_SIZE_CONTENT_TYPE = 256
      \<and> int (len (ContentEncoding b)) = MAX_SIZE_CONTENT_ENCODING
      \<and> MAX_SIZE_CONTENT_ENCODING = 256
      \<and> int (len (MetaData b)) = MAX_SIZE_META_DATA \<and> MAX_SIZE_META_DATA = 1000
      \<and> uint (ContentTypeLength b) < MAX_SIZE_CONTENT_TYPE
      \<and> uint (ContentEncodingLength b) < MAX_SIZE_CONTENT_ENCODING"
    using uint8_less_256 [of "ContentTypeLength b"] uint8_less_256 [of "ContentEncodingLength b"]
    by (simp add: len_array MAX_SIZE_CONTENT_TYPE_def MAX_SIZE_CONTENT_ENCODING_def
        MAX_SIZE_META_DATA_def)
  have rejected: "(constructPlanFile c hdr ct ce md blk ps = Inl CorruptPlan) =
      (MAX_SIZE_CONTENT_TYPE < int (length ct)
       \<or> MAX_SIZE_CONTENT_ENCODING < int (length ce)
       \<or> MAX_SIZE_META_DATA < int (length md))"
    using newBlobData_rejected [of ct ce md blk]
    by (cases "newBlobData ct ce md blk") (auto simp add: constructPlanFile_def newBlobData_def
        split: if_splits)
  have accepted: "constructPlanFile c hdr ct ce md blk ps = Inr out \<longrightarrow>
      (\<exists>b'. newBlobData ct ce md blk = Inr b'
         \<and> out = buildPlanFile c (hdr\<lparr>BlobData := b'\<rparr>) ps
         \<and> uint (ContentTypeLength b') \<le> MAX_SIZE_CONTENT_TYPE
         \<and> uint (ContentEncodingLength b') \<le> MAX_SIZE_CONTENT_ENCODING
         \<and> uint (MetaDataLength b') \<le> MAX_SIZE_META_DATA
         \<and> unat (ContentTypeLength b') = length ct mod 256
         \<and> unat (ContentEncodingLength b') = length ce mod 256
         \<and> unat (MetaDataLength b') = length md
         \<and> take (length ct) (elems (ContentType b')) = ct
         \<and> take (length ce) (elems (ContentEncoding b')) = ce
         \<and> take (length md) (elems (MetaData b')) = md)"
  proof
    assume built: "constructPlanFile c hdr ct ce md blk ps = Inr out"
    then obtain b' where b': "newBlobData ct ce md blk = Inr b'"
      and out: "out = buildPlanFile c (hdr\<lparr>BlobData := b'\<rparr>) ps"
      by (cases "newBlobData ct ce md blk") (auto simp add: constructPlanFile_def)
    note acc = newBlobData_accepted [OF b']
    from acc(3,6) have "uint (MetaDataLength b') \<le> MAX_SIZE_META_DATA"
      by (simp add: MAX_SIZE_META_DATA_def uint_nat)
    moreover have "uint (ContentTypeLength b') \<le> MAX_SIZE_CONTENT_TYPE"
      and "uint (ContentEncodingLength b') \<le> MAX_SIZE_CONTENT_ENCODING"
      using uint8_less_256 [of "ContentTypeLength b'"]
        uint8_less_256 [of "ContentEncodingLength b'"]
      by (simp_all add: MAX_SIZE_CONTENT_TYPE_def MAX_SIZE_CONTENT_ENCODING_def)
    ultimately show "\<exists>b'. newBlobData ct ce md blk = Inr b'
         \<and> out = buildPlanFile c (hdr\<lparr>BlobData := b'\<rparr>) ps
         \<and> uint (ContentTypeLength b') \<le> MAX_SIZE_CONTENT_TYPE
         \<and> uint (ContentEncodingLength b') \<le> MAX_SIZE_CONTENT_ENCODING
         \<and> uint (MetaDataLength b') \<le> MAX_SIZE_META_DATA
         \<and> unat (ContentTypeLength b') = length ct mod 256
         \<and> unat (ContentEncodingLength b') = length ce mod 256
         \<and> unat (MetaDataLength b') = length md
         \<and> take (length ct) (elems (ContentType b')) = ct
         \<and> take (length ce) (elems (ContentEncoding b')) = ce
         \<and> take (length md) (elems (MetaData b')) = md"
      using b' out acc(4,5,6,7,8,9) by blast
  qed
  from sizes rejected accepted openPlanFile_ignores_BlobData [where c = c and b = b and bytes = bytes]
  show ?thesis by blast
qed

text \<open>
  Construction at the attributes \<open>a\<close>, the empty string and two bytes of metadata writes
  a file; 257 bytes of content type, or 1001 bytes of metadata, are rejected.
\<close>

theorem blob_capacities_witness:
  "constructPlanFile tinyCodec (zeroHeader :: header0) [97] [] [1, 2] 4 twoTransfers =
     Inr (buildPlanFile tinyCodec
       ((zeroHeader :: header0)\<lparr>BlobData :=
          \<lparr>ContentTypeLength = 1, ContentType = fillArray [97],
           ContentEncodingLength = 0, ContentEncoding = fillArray [],
           MetaDataLength = 2, MetaData = fillArray [1, 2], BlockSize = 4\<rparr>\<rparr>) twoTransfers)
   \<and> (\<exists>b'. newBlobData [97] [] [1, 2] 4 = Inr b'
        \<and> uint (MetaDataLength b') \<le> MAX_SIZE_META_DATA
        \<and> take 2 (elems (MetaData b')) = [1, 2])
   \<and> constructPlanFile tinyCodec (zeroHeader :: header0) (replicate 257 0) [] [1, 2] 4
        twoTransfers = Inl CorruptPlan
   \<and> constructPlanFile tinyCodec (zeroHeader :: header0) [97] [] (replicate 1001 0) 4
        twoTransfers = Inl CorruptPlan"
proof -
  have built: "constructPlanFile tinyCodec (zeroHeader :: header0) [97] [] [1, 2] 4 twoTransfers =
     Inr (buildPlanFile tinyCodec
       ((zeroHeader :: header0)\<lparr>BlobData :=
          \<lparr>ContentTypeLength = 1, ContentType = fillArray [97],
           ContentEncodingLength = 0, ContentEncoding = fillArray [],
           MetaDataLength = 2, MetaData = fillArray [1, 2], BlockSize = 4\<rparr>\<rparr>) twoTransfers)"
    by (simp add: constructPlanFile_def newBlobData_def MAX_SIZE_CONTENT_TYPE_def
        MAX_SIZE_CONTENT_ENCODING_def MAX_SIZE_META_DATA_def)
  have long_type: "MAX_SIZE_CONTENT_TYPE < int (length (replicate 257 (0 :: byte)))"
    by (simp add: MAX_SIZE_CONTENT_TYPE_def)
  have long_meta: "MAX_SIZE_META_DATA < int (length (replicate 1001 (0 :: byte)))"
    by (simp add: MAX_SIZE_META_DATA_def)
  from built
    blob_capacities [where b = zeroBlobData and bytes = "[]" and c = tinyCodec
      and hdr = "zeroHeader :: header0" and ct = "[97]" and ce = "[]" and md = "[1, 2]"
      and blk = 4 and ps = twoTransfers
      and out = "buildPlanFile tinyCodec
       ((zeroHeader :: header0)\<lparr>BlobData :=
          \<lparr>ContentTypeLength = 1, ContentType = fillArray [97],
           ContentEncodingLength = 0, ContentEncoding = fillArray [],
           MetaDataLength = 2, MetaData = fillArray [1, 2], BlockSize = 4\<rparr>\<rparr>) twoTransfers"]
  have "\<exists>b'. newBlobData [97] [] [1, 2] 4 = Inr b'
        \<and> uint (MetaDataLength b') \<le> MAX_SIZE_META_DATA
        \<and> take 2 (elems (MetaData b')) = [1, 2]"
    by (auto simp add: numeral_2_eq_2)
  moreover from long_type
    blob_capacities [where c = tinyCodec and hdr = "zeroHeader :: header0"
      and ct = "replicate 257 0" and ce = "[]" and md = "[1, 2]" and blk = 4
      and ps = twoTransfers
      and b = zeroBlobData and bytes = "[]" and out = "([], 0)"]
  have "constructPlanFile tinyCodec (zeroHeader :: header0) (replicate 257 0) [] [1, 2] 4
        twoTransfers = Inl CorruptPlan"
    by blast
  moreover from long_meta
    blob_capacities [where c = tinyCodec and hdr = "zeroHeader :: header0" and ct = "[97]"
      and ce = "[]" and md = "replicate 1001 0" and blk = 4 and ps = twoTransfers
      and b = zeroBlobData and bytes = "[]" and out = "([], 0)"]
  have "constructPlanFile tinyCodec (zeroHeader :: header0) [97] [] (replicate 1001 0) 4
        twoTransfers = Inl CorruptPlan"
    by blast
  ultimately show ?thesis
    using built by blast
qed

subsection \<open>Schema version\<close>

text \<open>
  C4: a plan file whose \<open>Version\<close> differs from \<open>dataSchemaVersion\<close>, which is 0,
  does not open: the reader fails with \<open>SchemaVersionMismatch\<close>, an error that carries
  no field of the file.
\<close>

theorem version_mismatch_rejected:
  assumes "sizeofHeader c \<le> length bytes"
    and "uint (Version (getHeader c (slice (headerRegion c) bytes))) \<noteq> dataSchemaVersion"
  shows "dataSchemaVersion = 0 \<and> openPlanFile c bytes = Inl SchemaVersionMismatch"
  using assms by (simp add: openPlanFile_def Let_def dataSchemaVersion_def)

theorem version_mismatch_rejected_witness:
  "sizeofHeader tinyCodec \<le> length [1 :: byte, 0]
   \<and> uint (Version (getHeader tinyCodec (slice (headerRegion tinyCodec) [1, 0]))) = 1
   \<and> openPlanFile tinyCodec [1, 0] = Inl SchemaVersionMismatch"
proof -
  have size: "sizeofHeader tinyCodec \<le> length [1 :: byte, 0]"
    by (simp add: tinyCodec_def)
  have version: "uint (Version (getHeader tinyCodec (slice (headerRegion tinyCodec) [1, 0]))) = 1"
    by (simp add: tinyCodec_def headerRegion_def slice_def)
  then have "uint (Version (getHeader tinyCodec (slice (headerRegion tinyCodec) [1, 0])))
      \<noteq> dataSchemaVersion"
    by (simp add: dataSchemaVersion_def)
  from version_mismatch_rejected [OF size this] size version show ?thesis
    by simp
qed

subsection \<open>Plan file layout\<close>

lemma length_layoutTransfers: "length (layoutTransfers off ps) = length ps"
  by (induction off ps rule: layoutTransfers.induct) simp_all

lemma length_concat_fixed:
  "\<forall>x \<in> set xs. length (f x) = r \<Longrightarrow> length (concat (map f xs)) = length xs * r"
  by (induction xs) simp_all

lemma slice_concat_fixed:
  "\<forall>x \<in> set xs. length (f x) = r \<Longrightarrow> i < length xs \<Longrightarrow>
     take r (drop (i * r) (concat (map f xs)) @ rest) = f (xs ! i)"
proof (induction xs arbitrary: i)
  case Nil
  then show ?case by simp
next
  case (Cons x xs)
  show ?case
  proof (cases i)
    case 0
    with Cons.prems show ?thesis by simp
  next
    case (Suc j)
    with Cons.prems have "j < length xs" and "\<forall>x \<in> set xs. length (f x) = r"
      and "length (f x) = r"
      by simp_all
    with Cons.IH [of j] Suc show ?thesis by simp
  qed
qed

lemma stringPool_Nil: "stringPool [] = []"
  by (simp add: stringPool_def)

lemma stringPool_Cons: "stringPool ((m, src, dst) # ps) = src @ dst @ stringPool ps"
  by (simp add: stringPool_def)

text \<open>The record the forward pass gives transfer \<open>i\<close>.\<close>

lemma layoutTransfers_nth:
  "i < length ps \<Longrightarrow>
     layoutTransfers off ps ! i =
       (fst (ps ! i))\<lparr>Offset := of_nat (off + length (stringPool (take i ps))),
         SrcLength := of_nat (length (fst (snd (ps ! i)))),
         DstLength := of_nat (length (snd (snd (ps ! i))))\<rparr>"
proof (induction off ps arbitrary: i rule: layoutTransfers.induct)
  case (1 off)
  then show ?case by simp
next
  case (2 off m src dst ps)
  show ?case
  proof (cases i)
    case 0
    then show ?thesis by (simp add: stringPool_Nil)
  next
    case (Suc j)
    with "2.prems" have "j < length ps" by simp
    from "2.IH" [OF this] Suc show ?thesis
      by (simp add: stringPool_Cons add.assoc)
  qed
qed

lemma stringPool_split:
  "i < length ps \<Longrightarrow>
     stringPool ps =
       stringPool (take i ps) @ fst (snd (ps ! i)) @ snd (snd (ps ! i))
         @ stringPool (drop (Suc i) ps)"
proof (induction ps arbitrary: i)
  case Nil
  then show ?case by simp
next
  case (Cons p ps)
  obtain m src dst where p: "p = (m, src, dst)" by (cases p) auto
  show ?case
  proof (cases i)
    case 0
    then show ?thesis by (simp add: p stringPool_Cons stringPool_Nil)
  next
    case (Suc j)
    with Cons.prems have "j < length ps" by simp
    from Cons.IH [OF this] Suc show ?thesis
      by (simp add: p stringPool_Cons)
  qed
qed

lemma length_stringPool_take:
  assumes "i < length ps"
  shows "length (stringPool (take i ps)) + length (fst (snd (ps ! i)))
      + length (snd (snd (ps ! i))) \<le> length (stringPool ps)"
  using arg_cong [OF stringPool_split [OF assms], of length] by simp

lemma fits_nth:
  assumes "fits c hdr ps" and "i < length ps"
  shows "length (fst (snd (ps ! i))) < 2 ^ 16" and "length (snd (snd (ps ! i))) < 2 ^ 16"
proof -
  from assms have "(\<lambda>(m, src, dst). length src < 2 ^ 16 \<and> length dst < 2 ^ 16) (ps ! i)"
    by (simp add: fits_def list_all_length)
  then show "length (fst (snd (ps ! i))) < 2 ^ 16" and "length (snd (snd (ps ! i))) < 2 ^ 16"
    by (simp_all add: case_prod_beta)
qed

lemma unat_of_nat16: "n < 2 ^ 16 \<Longrightarrow> unat (of_nat n :: uint16) = n"
  by (simp add: unat_of_nat)

lemma unat_of_nat64: "n < 2 ^ 64 \<Longrightarrow> unat (of_nat n :: uint64) = n"
  by (simp add: unat_of_nat)

lemma built_bytes:
  "fst (buildPlanFile c hdr ps) =
     putHeader c hdr
     @ concat (map (putTransfer c) (layoutTransfers (poolStart c (length ps)) ps))
     @ stringPool ps"
  and built_size: "snd (buildPlanFile c hdr ps) = length (fst (buildPlanFile c hdr ps))"
  by (simp_all add: buildPlanFile_def Let_def)

lemma length_built:
  assumes "fixedSize c"
  shows "length (fst (buildPlanFile c hdr ps)) = poolStart c (length ps) + length (stringPool ps)"
proof -
  from assms have "\<forall>t \<in> set (layoutTransfers (poolStart c (length ps)) ps).
      length (putTransfer c t) = sizeofTransfer c"
    by (simp add: fixedSize_def)
  from length_concat_fixed [OF this] assms show ?thesis
    by (simp add: built_bytes length_layoutTransfers poolStart_def fixedSize_def)
qed

lemma built_header:
  assumes "fixedSize c"
  shows "slice (headerRegion c) (fst (buildPlanFile c hdr ps)) = putHeader c hdr"
  using assms by (simp add: built_bytes slice_def headerRegion_def fixedSize_def)

lemma built_transfer:
  assumes "fixedSize c" and "i < length ps"
  shows "slice (transferRegion c i) (fst (buildPlanFile c hdr ps)) =
     putTransfer c (layoutTransfers (poolStart c (length ps)) ps ! i)"
proof -
  let ?ts = "layoutTransfers (poolStart c (length ps)) ps"
  from assms have fixed: "\<forall>t \<in> set ?ts. length (putTransfer c t) = sizeofTransfer c"
    and hdr: "length (putHeader c hdr) = sizeofHeader c"
    by (simp_all add: fixedSize_def)
  from assms have i: "i < length ?ts"
    by (simp add: length_layoutTransfers)
  have "slice (transferRegion c i) (fst (buildPlanFile c hdr ps)) =
      take (sizeofTransfer c)
        (drop (i * sizeofTransfer c) (concat (map (putTransfer c) ?ts)) @ stringPool ps)"
    using hdr length_concat_fixed [OF fixed] i
    by (simp add: built_bytes slice_def transferRegion_def)
  also have "\<dots> = putTransfer c (?ts ! i)"
    by (rule slice_concat_fixed [OF fixed i])
  finally show ?thesis .
qed

lemma built_pool:
  assumes "fixedSize c"
  shows "drop (poolStart c (length ps)) (fst (buildPlanFile c hdr ps)) = stringPool ps"
proof -
  from assms have "\<forall>t \<in> set (layoutTransfers (poolStart c (length ps)) ps).
      length (putTransfer c t) = sizeofTransfer c"
    by (simp add: fixedSize_def)
  from length_concat_fixed [OF this] assms show ?thesis
    by (simp add: built_bytes length_layoutTransfers poolStart_def fixedSize_def)
qed

lemma built_record_fields:
  assumes "fits c hdr ps" and "i < length ps"
  defines "t \<equiv> layoutTransfers (poolStart c (length ps)) ps ! i"
  shows "unat (Offset t) = poolStart c (length ps) + length (stringPool (take i ps))"
    and "unat (SrcLength t) = length (fst (snd (ps ! i)))"
    and "unat (DstLength t) = length (snd (snd (ps ! i)))"
proof -
  from assms(1) have "poolStart c (length ps) + length (stringPool ps) < 2 ^ 64"
    by (simp add: fits_def)
  with length_stringPool_take [OF assms(2)]
  have "poolStart c (length ps) + length (stringPool (take i ps)) < 2 ^ 64"
    by simp
  then show "unat (Offset t) = poolStart c (length ps) + length (stringPool (take i ps))"
    by (simp add: t_def layoutTransfers_nth [OF assms(2)] unat_of_nat64 del: of_nat_add)
  from fits_nth [OF assms(1,2)]
  show "unat (SrcLength t) = length (fst (snd (ps ! i)))"
    and "unat (DstLength t) = length (snd (snd (ps ! i)))"
    by (simp_all add: t_def layoutTransfers_nth [OF assms(2)] unat_of_nat16)
qed

lemma built_strings:
  assumes "fixedSize c" and "fits c hdr ps" and "i < length ps"
  defines "t \<equiv> layoutTransfers (poolStart c (length ps)) ps ! i"
  shows "srcString (fst (buildPlanFile c hdr ps)) t = fst (snd (ps ! i))"
    and "dstString (fst (buildPlanFile c hdr ps)) t = snd (snd (ps ! i))"
proof -
  let ?bytes = "fst (buildPlanFile c hdr ps)"
  let ?k = "length (stringPool (take i ps))"
  let ?src = "fst (snd (ps ! i))"
  let ?dst = "snd (snd (ps ! i))"
  have fields: "unat (Offset t) = poolStart c (length ps) + ?k"
    "unat (SrcLength t) = length ?src" "unat (DstLength t) = length ?dst"
    unfolding t_def by (rule built_record_fields [OF assms(2,3)])+
  have "drop (poolStart c (length ps) + ?k) ?bytes = drop ?k (stringPool ps)"
    using arg_cong [OF built_pool [OF assms(1), of ps hdr], of "drop ?k"]
    by (simp add: add.commute)
  also have "\<dots> = ?src @ ?dst @ stringPool (drop (Suc i) ps)"
    using arg_cong [OF stringPool_split [OF assms(3)], of "drop ?k"] by simp
  finally have at: "drop (unat (Offset t)) ?bytes = ?src @ ?dst @ stringPool (drop (Suc i) ps)"
    by (simp add: fields)
  then show "srcString ?bytes t = ?src"
    by (simp add: srcString_def fields)
  have "drop (unat (Offset t) + unat (SrcLength t)) ?bytes
      = drop (length ?src) (drop (unat (Offset t)) ?bytes)"
    by (simp add: fields add.commute)
  with at show "dstString ?bytes t = ?dst"
    by (simp add: dstString_def fields)
qed

lemma built_bounds:
  assumes "fixedSize c" and "fits c hdr ps" and "i < length ps"
  shows "poolStart c (length ps)
      \<le> unat (Offset (layoutTransfers (poolStart c (length ps)) ps ! i))"
    and "inBounds (length (fst (buildPlanFile c hdr ps)))
      (layoutTransfers (poolStart c (length ps)) ps ! i)"
proof -
  note fields = built_record_fields [OF assms(2,3)]
  show "poolStart c (length ps)
      \<le> unat (Offset (layoutTransfers (poolStart c (length ps)) ps ! i))"
    by (simp add: fields)
  show "inBounds (length (fst (buildPlanFile c hdr ps)))
      (layoutTransfers (poolStart c (length ps)) ps ! i)"
    using length_stringPool_take [OF assms(3)]
    by (simp add: inBounds_def length_built [OF assms(1)] fields)
qed

text \<open>
  C8: in the file the builder writes, the header fills the header region, transfer
  record \<open>i\<close> fills transfer region \<open>i\<close>, and the string pool is what starts at
  \<open>sizeof(Header) + NumTransfers * sizeof(TransferRecord)\<close>. The \<open>Offset\<close> of every
  record is at or after that boundary, \<open>Offset + SrcLength + DstLength\<close> does not
  exceed the total size the builder returns, and the bytes at \<open>Offset\<close> are the
  record's source path followed by its destination path.
\<close>

theorem plan_file_layout:
  assumes "fixedSize c" and "fits c hdr ps" and "i < length ps"
  shows "headerRegion c = (0, sizeofHeader c)
    \<and> transferRegion c i =
        (sizeofHeader c + i * sizeofTransfer c, sizeofHeader c + (i + 1) * sizeofTransfer c)
    \<and> poolStart c (unat (NumTransfers hdr)) =
        sizeofHeader c + unat (NumTransfers hdr) * sizeofTransfer c
    \<and> slice (headerRegion c) (fst (buildPlanFile c hdr ps)) = putHeader c hdr
    \<and> slice (transferRegion c i) (fst (buildPlanFile c hdr ps)) =
        putTransfer c (layoutTransfers (poolStart c (length ps)) ps ! i)
    \<and> drop (poolStart c (unat (NumTransfers hdr))) (fst (buildPlanFile c hdr ps)) =
        stringPool ps
    \<and> poolStart c (unat (NumTransfers hdr))
        \<le> unat (Offset (layoutTransfers (poolStart c (length ps)) ps ! i))
    \<and> inBounds (snd (buildPlanFile c hdr ps))
        (layoutTransfers (poolStart c (length ps)) ps ! i)
    \<and> srcString (fst (buildPlanFile c hdr ps))
        (layoutTransfers (poolStart c (length ps)) ps ! i) = fst (snd (ps ! i))
    \<and> dstString (fst (buildPlanFile c hdr ps))
        (layoutTransfers (poolStart c (length ps)) ps ! i) = snd (snd (ps ! i))"
proof -
  let ?t = "layoutTransfers (poolStart c (length ps)) ps ! i"
  from assms(2) have n: "unat (NumTransfers hdr) = length ps"
    by (simp add: fits_def)
  have "inBounds (snd (buildPlanFile c hdr ps)) ?t"
    using built_bounds(2) [OF assms] by (simp add: built_size)
  moreover have "poolStart c (unat (NumTransfers hdr)) \<le> unat (Offset ?t)"
    using built_bounds(1) [OF assms] by (simp add: n)
  moreover have "headerRegion c = (0, sizeofHeader c)"
    and "transferRegion c i =
        (sizeofHeader c + i * sizeofTransfer c, sizeofHeader c + (i + 1) * sizeofTransfer c)"
    and "poolStart c (unat (NumTransfers hdr)) =
        sizeofHeader c + unat (NumTransfers hdr) * sizeofTransfer c"
    by (simp_all add: headerRegion_def transferRegion_def poolStart_def)
  ultimately show ?thesis
    using built_header [OF assms(1)] built_transfer [OF assms(1,3)]
      built_pool [OF assms(1), of ps hdr] built_strings [OF assms] n
    by simp
qed

lemma fixedSize_tinyCodec: "fixedSize tinyCodec"
  by (simp add: fixedSize_def tinyCodec_def)

lemma fits_twoTransfers: "fits tinyCodec ((zeroHeader :: header0)\<lparr>NumTransfers := 2\<rparr>) twoTransfers"
  by (simp add: fits_def twoTransfers_def poolStart_def stringPool_def tinyCodec_def)

text \<open>
  The specification's scenario: two transfers with paths of five bytes each. The pool
  starts at byte 8 of the file, the second record points at byte 18 and the file has 28
  bytes.
\<close>

theorem plan_file_layout_witness:
  "fixedSize tinyCodec
   \<and> fits tinyCodec ((zeroHeader :: header0)\<lparr>NumTransfers := 2\<rparr>) twoTransfers
   \<and> (1 :: nat) < length twoTransfers
   \<and> poolStart tinyCodec 2 = 8
   \<and> unat (Offset (layoutTransfers (poolStart tinyCodec (length twoTransfers)) twoTransfers ! 1))
       = 18
   \<and> snd (buildPlanFile tinyCodec ((zeroHeader :: header0)\<lparr>NumTransfers := 2\<rparr>) twoTransfers)
       = 28
   \<and> inBounds
       (snd (buildPlanFile tinyCodec ((zeroHeader :: header0)\<lparr>NumTransfers := 2\<rparr>) twoTransfers))
       (layoutTransfers (poolStart tinyCodec (length twoTransfers)) twoTransfers ! 1)
   \<and> srcString
       (fst (buildPlanFile tinyCodec ((zeroHeader :: header0)\<lparr>NumTransfers := 2\<rparr>) twoTransfers))
       (layoutTransfers (poolStart tinyCodec (length twoTransfers)) twoTransfers ! 1)
       = [99, 46, 116, 120, 116]"
proof -
  have i: "(1 :: nat) < length twoTransfers"
    by (simp add: twoTransfers_def)
  have start: "poolStart tinyCodec 2 = 8"
    by (simp add: poolStart_def tinyCodec_def)
  have len2: "length twoTransfers = 2"
    by (simp add: twoTransfers_def)
  have off: "unat (Offset (layoutTransfers (poolStart tinyCodec (length twoTransfers))
      twoTransfers ! 1)) = 18"
    by (simp add: len2 start) (simp add: twoTransfers_def)
  have total: "snd (buildPlanFile tinyCodec ((zeroHeader :: header0)\<lparr>NumTransfers := 2\<rparr>)
      twoTransfers) = 28"
    by (simp add: buildPlanFile_def Let_def len2 start)
      (simp add: twoTransfers_def tinyCodec_def stringPool_def)
  have src: "fst (snd (twoTransfers ! 1)) = [99, 46, 116, 120, 116]"
    by (simp add: twoTransfers_def)
  from plan_file_layout [OF fixedSize_tinyCodec fits_twoTransfers i]
    fixedSize_tinyCodec fits_twoTransfers i start off total src
  show ?thesis by simp
qed

subsection \<open>Writing and reading back\<close>

text \<open>
  With an encoding that loses nothing, the reader opens what the builder wrote for a
  header of the implemented version, and exposes the header and the records laid out.
\<close>

lemma readTransfers_built:
  assumes "fixedSize c" and "lossless c"
  shows "readTransfers c (length ps) (fst (buildPlanFile c hdr ps)) =
     layoutTransfers (poolStart c (length ps)) ps"
proof -
  let ?ts = "layoutTransfers (poolStart c (length ps)) ps"
  have "readTransfers c (length ps) (fst (buildPlanFile c hdr ps)) =
      map (\<lambda>i. ?ts ! i) [0..<length ps]"
    unfolding readTransfers_def
  proof (rule map_cong [OF refl])
    fix i assume "i \<in> set [0..<length ps]"
    then have "i < length ps" by simp
    from built_transfer [OF assms(1) this, of hdr] assms(2)
    show "getTransfer c (slice (transferRegion c i) (fst (buildPlanFile c hdr ps))) = ?ts ! i"
      by (simp add: lossless_def)
  qed
  also have "\<dots> = ?ts"
    using map_nth [of ?ts] by (simp add: length_layoutTransfers)
  finally show ?thesis .
qed

lemma open_built:
  assumes "fixedSize c" and "lossless c" and "fits c hdr ps"
    and "uint (Version hdr) = dataSchemaVersion"
  shows "openPlanFile c (fst (buildPlanFile c hdr ps)) =
     Inr \<lparr>viewHeader = hdr,
          viewTransfers = layoutTransfers (poolStart c (length ps)) ps,
          viewBytes = fst (buildPlanFile c hdr ps)\<rparr>"
proof -
  let ?bytes = "fst (buildPlanFile c hdr ps)"
  let ?ts = "layoutTransfers (poolStart c (length ps)) ps"
  from assms(3) have n: "unat (NumTransfers hdr) = length ps"
    by (simp add: fits_def)
  have len: "length ?bytes = poolStart c (length ps) + length (stringPool ps)"
    by (rule length_built [OF assms(1)])
  have hdr: "getHeader c (slice (headerRegion c) ?bytes) = hdr"
    using built_header [OF assms(1), of hdr ps] assms(2) by (simp add: lossless_def)
  have "list_all (inBounds (length ?bytes)) ?ts"
    unfolding list_all_length
  proof (intro allI impI)
    fix i assume "i < length ?ts"
    then have i: "i < length ps" by (simp add: length_layoutTransfers)
    show "inBounds (length ?bytes) (?ts ! i)"
      by (rule built_bounds(2) [OF assms(1,3) i])
  qed
  with hdr n len assms(4) readTransfers_built [OF assms(1,2), of ps hdr] show ?thesis
    by (simp add: openPlanFile_def Let_def poolStart_def)
qed

text \<open>
  The reader accepts the file of the scenario: two bytes of header, two records of three
  bytes and twenty bytes of paths.
\<close>

lemma open_twoTransfers:
  "openPlanFile tinyCodec
     (fst (buildPlanFile tinyCodec ((zeroHeader :: header0)\<lparr>NumTransfers := 2\<rparr>) twoTransfers)) =
     Inr \<lparr>viewHeader = (zeroHeader :: header0)\<lparr>NumTransfers := 2\<rparr>,
          viewTransfers =
            [zeroTransfer\<lparr>Offset := 8, SrcLength := 5, DstLength := 5\<rparr>,
             zeroTransfer\<lparr>Offset := 18, SrcLength := 5, DstLength := 5\<rparr>],
          viewBytes =
            [0, 2, 8, 5, 5, 18, 5, 5,
             97, 46, 116, 120, 116, 98, 46, 116, 120, 116,
             99, 46, 116, 120, 116, 100, 46, 116, 120, 116]\<rparr>"
proof -
  have upt: "[0..<2] = [0, Suc 0]"
    by (simp add: numeral_2_eq_2)
  show ?thesis
    by (simp add: openPlanFile_def buildPlanFile_def Let_def twoTransfers_def tinyCodec_def
        poolStart_def stringPool_def headerRegion_def transferRegion_def slice_def
        readTransfers_def inBounds_def dataSchemaVersion_def zeroHeader_def zeroTransfer_def
        upt)
qed

end
